theory Spec2Isabelle
  imports Complex_Main
begin

section \<open>The hedge bot of \<^verbatim>\<open>cetus_hedge.py\<close>\<close>

text \<open>
  The class \<^verbatim>\<open>CetusHedgeBot\<close> keeps a liquidity position in a pool and a short on a
  derivatives venue. Its methods are embedded below as functions on an explicit state.

  Conventions of the embedding:
  \<^item> A Python float is written as the \<^typ>\<open>real\<close> it denotes; a float division by zero
    raises as in Python. The amounts and bounds that the methods compute and hand on are
    kept as the exact reals. The drift check, whose result is a comparison of computed
    floats, rounds every operation to binary64.
  \<^item> An exception is a value; a method returns \<open>Inl e\<close> when it raises \<open>e\<close>.
  \<^item> The exchange, the chain client, the notifier and the clock are outside the class;
    they act on an abstract world \<open>'w\<close>.
  \<^item> The methods \<^verbatim>\<open>remove_liquidity\<close>, \<^verbatim>\<open>close_hedge_position\<close>,
    \<^verbatim>\<open>initialize_position\<close>, \<^verbatim>\<open>get_pool_position\<close> and \<^verbatim>\<open>send_alert\<close> are called on
    \<^verbatim>\<open>self\<close> but the class does not define them. They are parameters: arbitrary
    functions that read and write the object and may raise.
  \<^item> Every call that leaves the class is recorded, in order, in a list of events.
\<close>

subsection \<open>Exceptions\<close>

text \<open>
  \<open>Exception c m\<close> is an instance of a class \<open>c\<close> deriving from Python's
  \<^verbatim>\<open>Exception\<close> whose \<^verbatim>\<open>str\<close> is \<open>m\<close>. \<open>Base_exception c m\<close> derives from
  \<^verbatim>\<open>BaseException\<close> only (\<^verbatim>\<open>KeyboardInterrupt\<close>, \<^verbatim>\<open>SystemExit\<close>): a clause
  \<^verbatim>\<open>except Exception\<close> does not catch it.
\<close>

datatype exn = Exception string string | Base_exception string string

fun str_exn :: "exn \<Rightarrow> string" where
  "str_exn (Exception c m) = m"
| "str_exn (Base_exception c m) = m"

definition KeyError :: "string \<Rightarrow> exn" where
  "KeyError k = Exception ''KeyError'' ([CHR 0x27] @ k @ [CHR 0x27])"

definition TypeError :: "string \<Rightarrow> exn" where
  "TypeError m = Exception ''TypeError'' m"

definition ZeroDivisionError :: exn where
  "ZeroDivisionError = Exception ''ZeroDivisionError'' ''float division by zero''"

text \<open>What Python raises when a method that the class does not define is called.\<close>

definition AttributeError :: "string \<Rightarrow> exn" where
  "AttributeError name =
     Exception ''AttributeError''
       ([CHR 0x27] @ ''CetusHedgeBot'' @ [CHR 0x27] @ '' object has no attribute ''
        @ [CHR 0x27] @ name @ [CHR 0x27])"

subsection \<open>Configuration, object state and collaborators\<close>

text \<open>
  The keys of \<^verbatim>\<open>config.yaml\<close> that the methods below read, for a configuration that
  has all of them. \<open>slippage_tolerance\<close> is the slippage setting of the configuration
  surface; no method of the class reads it.
\<close>

record bot_config =
  cetus_pool_address :: string
  strategy_base_amount :: real
  strategy_price_range :: real
  strategy_rebalance_threshold :: real
  strategy_check_interval :: real
  tokens_sui_decimals :: int
  tokens_usdc_decimals :: int
  tokens_sui_type :: string
  tokens_usdc_type :: string
  telegram_chat_id :: string
  slippage_tolerance :: real

text \<open>The attributes of the object that the methods read: \<^verbatim>\<open>self.config\<close> and
  \<^verbatim>\<open>self.current_position\<close> (\<^verbatim>\<open>None\<close> after \<^verbatim>\<open>__init__\<close>, else a dictionary).\<close>

record 'w bot =
  config :: bot_config
  current_position :: "(string \<rightharpoonup> real) option"
  world :: 'w

text \<open>The arguments of the pool transaction, as the transaction builder receives them.\<close>

datatype tx_arg =
  Object string
  | Split_coins_gas "tx_arg list"
  | SuiU64 int
  | Pure int

record move_call =
  target :: string
  arguments :: "tx_arg list"
  type_arguments :: "string list"

record tx_result =
  is_ok :: bool
  result_data :: string
  result_string :: string

text \<open>The values interpolated into the status report, in the order of the template;
  the layout of the text is not modelled.\<close>

record report =
  rep_price :: real
  rep_lower :: real
  rep_upper :: real
  rep_abs_deviation :: real
  rep_contracts :: real

record 'w env =
  fetch_ticker :: "'w \<Rightarrow> (exn + (string \<rightharpoonup> real option)) \<times> 'w"
  create_market_sell_order :: "real \<Rightarrow> 'w \<Rightarrow> (exn + (string \<rightharpoonup> string)) \<times> 'w"
  fetch_position :: "'w \<Rightarrow> (exn + (string \<rightharpoonup> real)) \<times> 'w"
  execute :: "move_call \<Rightarrow> 'w \<Rightarrow> (exn + tx_result) \<times> 'w"
  send_message :: "string \<Rightarrow> report \<Rightarrow> 'w \<Rightarrow> (exn + unit) \<times> 'w"
  remove_liquidity :: "'w bot \<Rightarrow> (exn + unit) \<times> 'w bot"
  close_hedge_position :: "'w bot \<Rightarrow> (exn + unit) \<times> 'w bot"
  initialize_position :: "'w bot \<Rightarrow> (exn + unit) \<times> 'w bot"
  get_pool_position :: "'w bot \<Rightarrow> (exn + (string \<rightharpoonup> real)) \<times> 'w bot"
  send_alert :: "string \<Rightarrow> 'w bot \<Rightarrow> (exn + unit) \<times> 'w bot"

datatype event =
  Call_fetch_ticker
  | Call_create_market_sell_order real
  | Call_fetch_position
  | Call_execute move_call
  | Call_send_message string report
  | Call_remove_liquidity
  | Call_close_hedge_position
  | Call_initialize_position
  | Call_get_pool_position
  | Call_send_alert string
  | Call_sleep real

subsection \<open>Sequencing, raising and catching\<close>

type_synonym ('w, 'a) prog = "'w bot \<times> event list \<Rightarrow> (exn + 'a) \<times> 'w bot \<times> event list"

definition ret :: "'a \<Rightarrow> ('w, 'a) prog" where
  "ret x = (\<lambda>s. (Inr x, s))"

definition raise :: "exn \<Rightarrow> ('w, 'a) prog" where
  "raise e = (\<lambda>s. (Inl e, s))"

definition bnd :: "('w, 'a) prog \<Rightarrow> ('a \<Rightarrow> ('w, 'b) prog) \<Rightarrow> ('w, 'b) prog" where
  "bnd m f = (\<lambda>s. case m s of (Inl e, s') \<Rightarrow> (Inl e, s') | (Inr x, s') \<Rightarrow> f x s')"

definition get_self :: "('w, 'w bot) prog" where
  "get_self = (\<lambda>(b, tr). (Inr b, b, tr))"

text \<open>A call of a method of the object, and a call of an outside service: the event is
  recorded whether the call returns or raises.\<close>

definition method_call :: "event \<Rightarrow> ('w bot \<Rightarrow> (exn + 'a) \<times> 'w bot) \<Rightarrow> ('w, 'a) prog" where
  "method_call ev f = (\<lambda>(b, tr). case f b of (r, b') \<Rightarrow> (r, b', tr @ [ev]))"

definition api_call :: "event \<Rightarrow> ('w \<Rightarrow> (exn + 'a) \<times> 'w) \<Rightarrow> ('w, 'a) prog" where
  "api_call ev f = (\<lambda>(b, tr). case f (world b) of (r, w') \<Rightarrow> (r, b\<lparr>world := w'\<rparr>, tr @ [ev]))"

text \<open>\<^verbatim>\<open>time.sleep\<close> only lets time pass.\<close>

definition sleep :: "real \<Rightarrow> ('w, unit) prog" where
  "sleep n = (\<lambda>(b, tr). (Inr (), b, tr @ [Call_sleep n]))"

text \<open>\<^verbatim>\<open>try: m  except Exception as e: h e\<close>\<close>

definition try_except :: "('w, 'a) prog \<Rightarrow> (exn \<Rightarrow> ('w, 'a) prog) \<Rightarrow> ('w, 'a) prog" where
  "try_except m h = (\<lambda>s. case m s of
       (Inl (Exception c msg), s') \<Rightarrow> h (Exception c msg) s'
     | (Inl (Base_exception c msg), s') \<Rightarrow> (Inl (Base_exception c msg), s')
     | (Inr x, s') \<Rightarrow> (Inr x, s'))"

text \<open>Subscripting a dictionary raises \<^verbatim>\<open>KeyError\<close> on a missing key.\<close>

definition subscript :: "(string \<rightharpoonup> 'a) \<Rightarrow> string \<Rightarrow> ('w, 'a) prog" where
  "subscript d k = (case d k of None \<Rightarrow> raise (KeyError k) | Some v \<Rightarrow> ret v)"

subsection \<open>Price and amounts\<close>

text \<open>\<^verbatim>\<open>get_sui_price\<close>: the \<^verbatim>\<open>last\<close> entry of the ticker, converted by \<^verbatim>\<open>float\<close>; the
  entry may be \<^verbatim>\<open>None\<close>, which \<^verbatim>\<open>float\<close> rejects.\<close>

definition get_sui_price :: "'w env \<Rightarrow> ('w, real) prog" where
  "get_sui_price env =
     bnd (api_call Call_fetch_ticker (fetch_ticker env)) (\<lambda>ticker.
     bnd (subscript ticker ''last'') (\<lambda>last.
       case last of
         None \<Rightarrow> raise (TypeError (''float() argument must be a string or a real number, not ''
                   @ [CHR 0x27] @ ''NoneType'' @ [CHR 0x27]))
       | Some p \<Rightarrow> ret p))"

text \<open>Float division: Python raises on a zero divisor.\<close>

definition py_div :: "real \<Rightarrow> real \<Rightarrow> ('w, real) prog" where
  "py_div x y = (if y = 0 then raise ZeroDivisionError else ret (x / y))"

definition calculate_swap_amounts :: "'w env \<Rightarrow> ('w, real \<times> real) prog" where
  "calculate_swap_amounts env =
     bnd (get_sui_price env) (\<lambda>current_price.
     bnd get_self (\<lambda>self.
       let total_usdc = strategy_base_amount (config self) in
       bnd (py_div (total_usdc * 0.5) current_price) (\<lambda>sui_amount.
         let usdc_amount = total_usdc * 0.5 in
         ret (sui_amount, usdc_amount))))"

subsection \<open>The pool leg\<close>

text \<open>\<^verbatim>\<open>int(x)\<close> on a float truncates toward zero.\<close>

definition py_int :: "real \<Rightarrow> int" where
  "py_int x = (if 0 \<le> x then \<lfloor>x\<rfloor> else \<lceil>x\<rceil>)"

text \<open>The message of the exception raised when the transaction is not accepted: the
  UTF-8 bytes of the source's literal, then a colon and a space.\<close>

definition add_liquidity_failed :: string where
  "add_liquidity_failed =
     [CHR 0xE6, CHR 0xB7, CHR 0xBB, CHR 0xE5, CHR 0x8A, CHR 0xA0, CHR 0xE6, CHR 0xB5, CHR 0x81,
      CHR 0xE5, CHR 0x8A, CHR 0xA8, CHR 0xE6, CHR 0x80, CHR 0xA7, CHR 0xE5, CHR 0xA4, CHR 0xB1,
      CHR 0xE8, CHR 0xB4, CHR 0xA5, CHR 0x3A, CHR 0x20]"

text \<open>The transaction that \<^verbatim>\<open>add_liquidity\<close> builds before it submits it.\<close>

definition add_liquidity_tx :: "bot_config \<Rightarrow> real \<Rightarrow> real \<Rightarrow> int \<Rightarrow> int \<Rightarrow> move_call" where
  "add_liquidity_tx cfg sui_amount usdc_amount lower_tick upper_tick =
     (let sui_scaled = py_int (sui_amount * 10 powi tokens_sui_decimals cfg);
          usdc_scaled = py_int (usdc_amount * 10 powi tokens_usdc_decimals cfg)
      in \<lparr>target = cetus_pool_address cfg @ ''::pool::add_liquidity'',
          arguments =
            [Object (cetus_pool_address cfg),
             Split_coins_gas [SuiU64 sui_scaled],
             Split_coins_gas [SuiU64 usdc_scaled],
             SuiU64 lower_tick,
             SuiU64 upper_tick,
             Pure 0],
          type_arguments = [tokens_sui_type cfg, tokens_usdc_type cfg]\<rparr>)"

definition add_liquidity :: "'w env \<Rightarrow> real \<Rightarrow> real \<Rightarrow> int \<Rightarrow> int \<Rightarrow> ('w, string) prog" where
  "add_liquidity env sui_amount usdc_amount lower_tick upper_tick =
     bnd get_self (\<lambda>self.
       let tx = add_liquidity_tx (config self) sui_amount usdc_amount lower_tick upper_tick in
       bnd (api_call (Call_execute tx) (execute env tx)) (\<lambda>result.
         if is_ok result then ret (result_data result)
         else raise (Exception ''Exception'' (add_liquidity_failed @ result_string result))))"

subsection \<open>The hedge leg\<close>

definition hedge_order_failed :: string where
  "hedge_order_failed =
     [CHR 0xE5, CHR 0xAF, CHR 0xB9, CHR 0xE5, CHR 0x86, CHR 0xB2, CHR 0xE8, CHR 0xAE, CHR 0xA2,
      CHR 0xE5, CHR 0x8D, CHR 0x95, CHR 0xE5, CHR 0xA4, CHR 0xB1, CHR 0xE8, CHR 0xB4, CHR 0xA5,
      CHR 0x3A, CHR 0x20]"

text \<open>\<^verbatim>\<open>execute_hedge\<close> returns the identifier of the order; after the handler the method
  ends without a \<^verbatim>\<open>return\<close>, so it returns \<^verbatim>\<open>None\<close>.\<close>

definition execute_hedge :: "'w env \<Rightarrow> real \<Rightarrow> ('w, string option) prog" where
  "execute_hedge env sui_amount =
     try_except
       (bnd (api_call (Call_create_market_sell_order sui_amount)
               (create_market_sell_order env sui_amount)) (\<lambda>order.
        bnd (subscript order ''id'') (\<lambda>order_id.
          ret (Some order_id))))
       (\<lambda>e.
        bnd (method_call (Call_send_alert (hedge_order_failed @ str_exn e))
               (send_alert env (hedge_order_failed @ str_exn e))) (\<lambda>_.
          ret None))"

subsection \<open>Binary64 arithmetic\<close>

text \<open>
  A finite double is a real \<open>m * 2 ^ e\<close> with \<open>\<bar>m\<bar> < 2 ^ 53\<close> and \<open>- 1074 \<le> e\<close>, below
  \<open>2 ^ 1024\<close> in magnitude. An operation on doubles computes the exact result and rounds it
  to the nearest double, a tie going to the even one; a result that rounds to \<open>2 ^ 1024\<close>
  or beyond is an infinity. The sign of a zero is not kept: no operation used here reads it.
\<close>

text \<open>The number of binary digits of a natural number.\<close>

fun bit_length :: "nat \<Rightarrow> nat" where
  "bit_length n = (if n = 0 then 0 else Suc (bit_length (n div 2)))"

declare bit_length.simps [simp del]

text \<open>For \<open>0 < x\<close>, the integer \<open>e\<close> with \<open>2 ^ e \<le> x < 2 ^ (e + 1)\<close>.\<close>

definition ilog2 :: "real \<Rightarrow> int" where
  "ilog2 x =
     (if 1 \<le> x then int (bit_length (nat \<lfloor>x\<rfloor>)) - 1
      else - int (bit_length (nat (\<lceil>1 / x\<rceil> - 1))))"

definition round_half_even :: "real \<Rightarrow> int" where
  "round_half_even q =
     (let n = \<lfloor>q\<rfloor>; r = q - of_int n
      in if r < 1 / 2 then n else if 1 / 2 < r then n + 1 else if even n then n else n + 1)"

datatype float64 = Fin real | Pos_inf | Neg_inf | Nan

text \<open>Rounding to binary64: the doubles around \<open>x\<close> are the multiples of \<open>2 ^ k\<close>, where
  \<open>k\<close> is 52 below the exponent of \<open>x\<close>, and never below \<open>- 1074\<close>.\<close>

definition round64 :: "real \<Rightarrow> float64" where
  "round64 x =
     (if x = 0 then Fin 0
      else
        let k = max (ilog2 \<bar>x\<bar>) (- 1022) - 52;
            y = of_int (round_half_even (x / 2 powi k)) * 2 powi k
        in if 2 ^ 1024 \<le> \<bar>y\<bar> then (if 0 < x then Pos_inf else Neg_inf) else Fin y)"

fun fneg :: "float64 \<Rightarrow> float64" where
  "fneg (Fin x) = Fin (- x)"
| "fneg Pos_inf = Neg_inf"
| "fneg Neg_inf = Pos_inf"
| "fneg Nan = Nan"

fun fadd :: "float64 \<Rightarrow> float64 \<Rightarrow> float64" where
  "fadd (Fin x) (Fin y) = round64 (x + y)"
| "fadd Nan _ = Nan"
| "fadd _ Nan = Nan"
| "fadd Pos_inf Neg_inf = Nan"
| "fadd Neg_inf Pos_inf = Nan"
| "fadd Pos_inf _ = Pos_inf"
| "fadd _ Pos_inf = Pos_inf"
| "fadd Neg_inf _ = Neg_inf"
| "fadd _ Neg_inf = Neg_inf"

definition fsub :: "float64 \<Rightarrow> float64 \<Rightarrow> float64" where
  "fsub a b = fadd a (fneg b)"

fun fmul :: "float64 \<Rightarrow> float64 \<Rightarrow> float64" where
  "fmul (Fin x) (Fin y) = round64 (x * y)"
| "fmul Nan _ = Nan"
| "fmul _ Nan = Nan"
| "fmul (Fin x) Pos_inf = (if x = 0 then Nan else if 0 < x then Pos_inf else Neg_inf)"
| "fmul (Fin x) Neg_inf = (if x = 0 then Nan else if 0 < x then Neg_inf else Pos_inf)"
| "fmul Pos_inf (Fin y) = (if y = 0 then Nan else if 0 < y then Pos_inf else Neg_inf)"
| "fmul Neg_inf (Fin y) = (if y = 0 then Nan else if 0 < y then Neg_inf else Pos_inf)"
| "fmul Pos_inf Pos_inf = Pos_inf"
| "fmul Neg_inf Neg_inf = Pos_inf"
| "fmul Pos_inf Neg_inf = Neg_inf"
| "fmul Neg_inf Pos_inf = Neg_inf"

text \<open>\<open>a <= b\<close> on doubles: false as soon as one side is not a number.\<close>

fun fle :: "float64 \<Rightarrow> float64 \<Rightarrow> bool" where
  "fle (Fin x) (Fin y) = (x \<le> y)"
| "fle Nan _ = False"
| "fle _ Nan = False"
| "fle Neg_inf _ = True"
| "fle _ Pos_inf = True"
| "fle Pos_inf _ = False"
| "fle _ Neg_inf = False"

subsection \<open>Drift check and rebalance\<close>

text \<open>The two thresholds are computed in binary64, one rounding for \<^verbatim>\<open>1 + threshold\<close>
  (or \<^verbatim>\<open>1 - threshold\<close>) and one for the product; \<^verbatim>\<open>a >= b\<close> is \<^verbatim>\<open>b <= a\<close>.\<close>

definition check_rebalance_condition :: "'w env \<Rightarrow> ('w, bool) prog" where
  "check_rebalance_condition env =
     bnd (get_sui_price env) (\<lambda>current_price.
     bnd get_self (\<lambda>self.
       case current_position self of
         None \<Rightarrow> raise (TypeError ([CHR 0x27] @ ''NoneType'' @ [CHR 0x27]
                   @ '' object is not subscriptable''))
       | Some position \<Rightarrow>
           bnd (subscript position ''lower_price'') (\<lambda>lower_bound.
           bnd (subscript position ''upper_price'') (\<lambda>upper_bound.
             let lower_threshold =
                   fmul (Fin lower_bound)
                     (fadd (Fin 1) (Fin (strategy_rebalance_threshold (config self))));
                 upper_threshold =
                   fmul (Fin upper_bound)
                     (fsub (Fin 1) (Fin (strategy_rebalance_threshold (config self))))
             in ret (fle (Fin current_price) lower_threshold
                     \<or> fle upper_threshold (Fin current_price))))))"

text \<open>The two local variables \<^verbatim>\<open>new_lower\<close> and \<^verbatim>\<open>new_upper\<close> of step 2 of
  \<^verbatim>\<open>rebalance_position\<close>, as a pair.\<close>

definition new_range :: "bot_config \<Rightarrow> real \<Rightarrow> real \<times> real" where
  "new_range cfg current_price =
     (current_price * (1 - strategy_price_range cfg),
      current_price * (1 + strategy_price_range cfg))"

definition rebalance_position :: "'w env \<Rightarrow> ('w, unit) prog" where
  "rebalance_position env =
     bnd (method_call Call_remove_liquidity (remove_liquidity env)) (\<lambda>_.
     bnd (get_sui_price env) (\<lambda>current_price.
     bnd get_self (\<lambda>self.
       let (new_lower, new_upper) = new_range (config self) current_price in
       bnd (method_call Call_close_hedge_position (close_hedge_position env)) (\<lambda>_.
         method_call Call_initialize_position (initialize_position env)))))"

subsection \<open>Report and main loop\<close>

definition generate_report :: "'w env \<Rightarrow> ('w, report) prog" where
  "generate_report env =
     bnd (method_call Call_get_pool_position (get_pool_position env)) (\<lambda>position.
     bnd (api_call Call_fetch_position (fetch_position env)) (\<lambda>binance_pos.
     bnd (get_sui_price env) (\<lambda>price.
     bnd (subscript position ''lower'') (\<lambda>lower.
     bnd (subscript position ''upper'') (\<lambda>upper.
     bnd (subscript position ''deviation'') (\<lambda>deviation.
     bnd (subscript binance_pos ''contracts'') (\<lambda>contracts.
       ret \<lparr>rep_price = price, rep_lower = lower, rep_upper = upper,
            rep_abs_deviation = \<bar>deviation\<bar>, rep_contracts = contracts\<rparr>)))))))"

definition system_error :: string where
  "system_error =
     [CHR 0xE7, CHR 0xB3, CHR 0xBB, CHR 0xE7, CHR 0xBB, CHR 0x9F, CHR 0xE9, CHR 0x94, CHR 0x99,
      CHR 0xE8, CHR 0xAF, CHR 0xAF, CHR 0x3A, CHR 0x20]"

text \<open>One pass through the body of \<^verbatim>\<open>while True\<close> in \<^verbatim>\<open>main_loop\<close>.\<close>

definition main_loop_body :: "'w env \<Rightarrow> ('w, unit) prog" where
  "main_loop_body env =
     try_except
       (bnd (check_rebalance_condition env) (\<lambda>drift.
        bnd (if drift then rebalance_position env else ret ()) (\<lambda>_.
        bnd (generate_report env) (\<lambda>report.
        bnd get_self (\<lambda>self.
        bnd (api_call (Call_send_message (telegram_chat_id (config self)) report)
               (send_message env (telegram_chat_id (config self)) report)) (\<lambda>_.
        bnd get_self (\<lambda>self.
          sleep (strategy_check_interval (config self)))))))))
       (\<lambda>e.
        bnd (method_call (Call_send_alert (system_error @ str_exn e))
               (send_alert env (system_error @ str_exn e))) (\<lambda>_.
          sleep 60))"

text \<open>The loop never ends by itself. \<open>while_true n\<close> is its first \<open>n\<close> passes: it
  returns \<open>Inl e\<close> when a pass lets \<open>e\<close> escape, and \<open>Inr ()\<close> when all \<open>n\<close> passes
  ended and the loop goes on.\<close>

fun while_true :: "nat \<Rightarrow> 'w env \<Rightarrow> ('w, unit) prog" where
  "while_true 0 env = ret ()"
| "while_true (Suc n) env = bnd (main_loop_body env) (\<lambda>_. while_true n env)"

definition main_loop :: "nat \<Rightarrow> 'w env \<Rightarrow> ('w, unit) prog" where
  "main_loop n env =
     bnd (method_call Call_initialize_position (initialize_position env)) (\<lambda>_.
       while_true n env)"

subsection \<open>The recreation step, from the specification\<close>






subsection \<open>Sample collaborators\<close>

text \<open>
  A concrete world for running the methods: the world is the list of prices that the
  exchange will report, one per request. The stand-ins for the methods that the class
  does not define succeed and leave the object alone, except the one for
  \<^verbatim>\<open>initialize_position\<close>, which takes the next price and stores the range around it.
\<close>

definition sample_config :: bot_config where
  "sample_config =
     \<lparr>cetus_pool_address = ''0xpool'',
      strategy_base_amount = 1000,
      strategy_price_range = 5 / 100,
      strategy_rebalance_threshold = 1 / 100,
      strategy_check_interval = 300,
      tokens_sui_decimals = 9,
      tokens_usdc_decimals = 6,
      tokens_sui_type = ''0x2::sui::SUI'',
      tokens_usdc_type = ''0xusdc::coin::COIN'',
      telegram_chat_id = ''chat'',
      slippage_tolerance = 1 / 100\<rparr>"

definition sample_fetch_ticker ::
  "real list \<Rightarrow> (exn + (string \<rightharpoonup> real option)) \<times> real list" where
  "sample_fetch_ticker w =
     (case w of
        [] \<Rightarrow> (Inl (Exception ''NetworkError'' ''no ticker''), [])
      | p # ps \<Rightarrow> (Inr [''last'' \<mapsto> Some p], ps))"

definition sample_initialize_position :: "real list bot \<Rightarrow> (exn + unit) \<times> real list bot" where
  "sample_initialize_position b =
     (case world b of
        [] \<Rightarrow> (Inl (Exception ''NetworkError'' ''no ticker''), b)
      | p # ps \<Rightarrow>
          (Inr (), b\<lparr>current_position :=
                       Some [''lower_price'' \<mapsto> p * (1 - strategy_price_range (config b)),
                             ''upper_price'' \<mapsto> p * (1 + strategy_price_range (config b))],
                     world := ps\<rparr>))"

definition sample_env :: "real list env" where
  "sample_env =
     \<lparr>fetch_ticker = sample_fetch_ticker,
      create_market_sell_order = (\<lambda>q w. (Inr [''id'' \<mapsto> ''42''], w)),
      fetch_position = (\<lambda>w. (Inr [''contracts'' \<mapsto> 500], w)),
      execute = (\<lambda>tx w. (Inr \<lparr>is_ok = True, result_data = ''digest'', result_string = ''''\<rparr>, w)),
      send_message = (\<lambda>chat r w. (Inr (), w)),
      remove_liquidity = (\<lambda>b. (Inr (), b)),
      close_hedge_position = (\<lambda>b. (Inr (), b)),
      initialize_position = sample_initialize_position,
      get_pool_position = (\<lambda>b. (Inr [''lower'' \<mapsto> 95 / 100, ''upper'' \<mapsto> 105 / 100,
                                       ''deviation'' \<mapsto> - 1 / 100], b)),
      send_alert = (\<lambda>m b. (Inr (), b))\<rparr>"

definition sample_position :: "string \<rightharpoonup> real" where
  "sample_position = [''lower_price'' \<mapsto> 95 / 100, ''upper_price'' \<mapsto> 105 / 100]"

definition sample_bot :: "real list \<Rightarrow> real list bot" where
  "sample_bot prices =
     \<lparr>config = sample_config, current_position = Some sample_position, world = prices\<rparr>"

definition sample_env_remove_fails :: "real list env" where
  "sample_env_remove_fails =
     sample_env\<lparr>remove_liquidity :=
       (\<lambda>b. (Inl (Exception ''LedgerSubmitError'' ''timeout''), b))\<rparr>"

definition sample_env_close_fails :: "real list env" where
  "sample_env_close_fails =
     sample_env\<lparr>close_hedge_position :=
       (\<lambda>b. (Inl (Exception ''VenueSubmitError'' ''rejected''), b))\<rparr>"

definition sample_env_order_rejected :: "real list env" where
  "sample_env_order_rejected =
     sample_env\<lparr>create_market_sell_order :=
       (\<lambda>q w. (Inl (Exception ''InsufficientFunds'' ''margin is insufficient''), w))\<rparr>"

text \<open>A position and a threshold whose lower drift threshold, rounded, is the double
  \<open>5780964596880845 / 2 ^ 53\<close>; all four numbers are doubles.\<close>

definition edge_bot :: "real list \<Rightarrow> real list bot" where
  "edge_bot prices =
     \<lparr>config = sample_config\<lparr>strategy_rebalance_threshold :=
                 3170534137668829 / 144115188075855872\<rparr>,
      current_position =
        Some [''lower_price'' \<mapsto> 5656521131977343 / 9007199254740992,
              ''upper_price'' \<mapsto> 3152519739159347 / 4503599627370496],
      world = prices\<rparr>"

definition sample_env_remove_fails_alert_undefined :: "real list env" where
  "sample_env_remove_fails_alert_undefined =
     sample_env_remove_fails\<lparr>send_alert :=
       (\<lambda>m b. (Inl (AttributeError ''send_alert''), b))\<rparr>"

definition sample_env_remove_interrupted :: "real list env" where
  "sample_env_remove_interrupted =
     sample_env\<lparr>remove_liquidity :=
       (\<lambda>b. (Inl (Base_exception ''KeyboardInterrupt'' ''interrupted''), b))\<rparr>"

definition sample_env_order_rejected_alert_undefined :: "real list env" where
  "sample_env_order_rejected_alert_undefined =
     sample_env_order_rejected\<lparr>send_alert :=
       (\<lambda>m b. (Inl (AttributeError ''send_alert''), b))\<rparr>"

definition sample_env_order_interrupted :: "real list env" where
  "sample_env_order_interrupted =
     sample_env\<lparr>create_market_sell_order :=
       (\<lambda>q w. (Inl (Base_exception ''KeyboardInterrupt'' ''interrupted''), w))\<rparr>"




section \<open>Basic facts\<close>

lemma bnd_Inr: "m s = (Inr x, s') \<Longrightarrow> bnd m f s = f x s'"
  by (simp add: bnd_def)

lemma bnd_Inl: "m s = (Inl e, s') \<Longrightarrow> bnd m f s = (Inl e, s')"
  by (simp add: bnd_def)

lemma get_sui_price_returns:
  assumes "fetch_ticker env (world b) = (Inr ticker, w')"
    and "ticker ''last'' = Some (Some price)"
  shows "get_sui_price env (b, tr) = (Inr price, b\<lparr>world := w'\<rparr>, tr @ [Call_fetch_ticker])"
  using assms by (simp add: get_sui_price_def bnd_def api_call_def subscript_def ret_def)

lemma sample_fetch: "fetch_ticker sample_env (world (sample_bot (p # ps))) = (Inr [''last'' \<mapsto> Some p], ps)"
  by (simp add: sample_env_def sample_bot_def sample_fetch_ticker_def)

lemma sample_last: "[''last'' \<mapsto> Some p] ''last'' = Some (Some (p::real))"
  by simp

lemma sample_bot_world: "(sample_bot ps)\<lparr>world := qs\<rparr> = sample_bot qs"
  by (simp add: sample_bot_def)

lemma sample_bot_config: "config (sample_bot ps) = sample_config"
  by (simp add: sample_bot_def)

lemma add_liquidity_submits:
  "\<exists>r b'. add_liquidity env sui_amount usdc_amount lower_tick upper_tick (b, tr) =
      (r, b', tr @ [Call_execute
                      (add_liquidity_tx (config b) sui_amount usdc_amount lower_tick upper_tick)])"
  by (auto simp: add_liquidity_def bnd_def get_self_def api_call_def ret_def raise_def Let_def
      split: prod.splits sum.splits)


lemmas float64_eval =
  round64_def ilog2_def round_half_even_def bit_length.simps fsub_def Let_def

lemma while_true_Suc:
  "while_true (Suc n) env s =
     (case main_loop_body env s of
        (Inl e, s') \<Rightarrow> (Inl e, s')
      | (Inr u, s') \<Rightarrow> while_true n env s')"
  by (simp add: bnd_def split: prod.splits sum.splits)




text \<open>The rounding is to a nearest double: \<open>bit_length\<close> and \<open>ilog2\<close> find the binary
  exponent, and the rounded value is within half a spacing of the exact one.\<close>

lemma bit_length_bounds:
  "0 < n \<Longrightarrow> 2 ^ (bit_length n - 1) \<le> n \<and> n < 2 ^ bit_length n"
proof (induction n rule: bit_length.induct)
  case (1 n)
  show ?case
  proof (cases "n div 2 = 0")
    case True
    with "1.prems" have "n = 1" by (simp add: div_eq_0_iff) 
    then show ?thesis by (simp add: bit_length.simps)
  next
    case False
    then have pos: "0 < n div 2" by simp
    from "1.prems" have n: "n \<noteq> 0" by simp
    from "1.IH" [OF n pos]
    have ih: "2 ^ (bit_length (n div 2) - 1) \<le> n div 2" "n div 2 < 2 ^ bit_length (n div 2)"
      by simp_all
    have bl: "bit_length n = Suc (bit_length (n div 2))"
      using n by (subst bit_length.simps) simp
    have "0 < bit_length (n div 2)"
      using pos by (subst bit_length.simps) simp
    then have "(2::nat) ^ bit_length (n div 2) = 2 * 2 ^ (bit_length (n div 2) - 1)"
      by (cases "bit_length (n div 2)") simp_all
    with ih show ?thesis
      unfolding bl by (simp; linarith)
  qed
qed

lemma round_half_even_nearest: "\<bar>of_int (round_half_even q) - q\<bar> \<le> 1 / 2"
  unfolding round_half_even_def Let_def
  by (simp; linarith)

lemma ilog2_bounds:
  assumes "0 < x"
  shows "2 powi ilog2 x \<le> x \<and> x < 2 powi (ilog2 x + 1)"
proof (cases "1 \<le> x")
  case True
  let ?n = "nat \<lfloor>x\<rfloor>"
  have n: "0 < ?n" using True by simp
  from bit_length_bounds [OF n]
  have lo: "2 ^ (bit_length ?n - 1) \<le> ?n" and hi: "?n < 2 ^ bit_length ?n"
    by simp_all
  have bl: "0 < bit_length ?n"
    using n by (subst bit_length.simps) simp
  have e: "ilog2 x = int (bit_length ?n - 1)"
    using True bl by (simp add: ilog2_def)
  have "real ?n \<le> x" using True by simp
  moreover have "real (2 ^ (bit_length ?n - 1)) \<le> real ?n"
    using lo by (simp only: of_nat_le_iff)
  ultimately have "real (2 ^ (bit_length ?n - 1)) \<le> x"
    by linarith
  then have 1: "2 powi ilog2 x \<le> x"
    unfolding e power_int_of_nat by simp
  have "x < real ?n + 1" using True by linarith
  moreover have "real ?n + 1 \<le> real (2 ^ bit_length ?n)"
    using hi by (metis Suc_leI of_nat_Suc of_nat_le_iff add.commute plus_1_eq_Suc)
  moreover have "ilog2 x + 1 = int (bit_length ?n)"
    using e bl by simp
  ultimately have 2: "x < 2 powi (ilog2 x + 1)"
    by (simp add: power_int_def)
  from 1 2 show ?thesis ..
next
  case False
  let ?m = "nat (\<lceil>1 / x\<rceil> - 1)"
  from False assms have y: "1 < 1 / x" by simp
  then have "2 \<le> \<lceil>1 / x\<rceil>" by linarith
  then have m: "0 < ?m" by simp
  from bit_length_bounds [OF m]
  have lo: "2 ^ (bit_length ?m - 1) \<le> ?m" and hi: "?m < 2 ^ bit_length ?m"
    by simp_all
  have bl: "0 < bit_length ?m"
    using m by (subst bit_length.simps) simp
  have e: "ilog2 x = - int (bit_length ?m)"
    using False by (simp add: ilog2_def)
  have mlt: "real ?m < 1 / x" using \<open>2 \<le> \<lceil>1 / x\<rceil>\<close> by (simp; linarith)
  have mge: "1 / x \<le> real ?m + 1" using \<open>2 \<le> \<lceil>1 / x\<rceil>\<close> by (simp; linarith)
  have "real ?m + 1 \<le> real (2 ^ bit_length ?m)"
    using hi by (metis Suc_leI of_nat_Suc of_nat_le_iff add.commute plus_1_eq_Suc)
  with mge have "1 / x \<le> 2 ^ bit_length ?m" by simp
  then have "1 / 2 ^ bit_length ?m \<le> x"
    using assms by (simp add: field_simps)
  then have 1: "2 powi ilog2 x \<le> x"
    unfolding e by (simp add: power_int_minus field_simps)
  have "real (2 ^ (bit_length ?m - 1)) \<le> real ?m"
    using lo by (simp only: of_nat_le_iff)
  with mlt have "real (2 ^ (bit_length ?m - 1)) < 1 / x" by linarith
  then have "2 ^ (bit_length ?m - 1) < 1 / x" by simp
  then have "x < 1 / 2 ^ (bit_length ?m - 1)"
    using assms by (simp add: field_simps)
  moreover have "ilog2 x + 1 = - int (bit_length ?m - 1)"
    using e bl by simp
  ultimately have 2: "x < 2 powi (ilog2 x + 1)"
    by (simp add: power_int_minus field_simps)
  from 1 2 show ?thesis ..
qed

lemma round64_nearest:
  assumes "round64 x = Fin y"
  shows "\<bar>y - x\<bar> \<le> 2 powi (max (ilog2 \<bar>x\<bar>) (- 1022) - 52) / 2"
proof (cases "x = 0")
  case True
  with assms show ?thesis by (simp add: round64_def)
next
  case False
  let ?u = "2 powi (max (ilog2 \<bar>x\<bar>) (- 1022) - 52) :: real"
  have u: "0 < ?u" by simp
  from assms False have y: "y = of_int (round_half_even (x / ?u)) * ?u"
    by (simp add: round64_def Let_def split: if_splits)
  have "y - x = (of_int (round_half_even (x / ?u)) - x / ?u) * ?u"
    using u unfolding y by (simp add: field_simps)
  then have "\<bar>y - x\<bar> = \<bar>of_int (round_half_even (x / ?u)) - x / ?u\<bar> * ?u"
    using u by (simp add: abs_mult)
  also have "\<dots> \<le> 1 / 2 * ?u"
    using round_half_even_nearest [of "x / ?u"] u by (intro mult_right_mono) simp_all
  finally show ?thesis by simp
qed

section \<open>Claims\<close>

text \<open>
  C1, as the code has it. For every position that has a lower and an upper price and every
  price that the ticker returns, \<^verbatim>\<open>check_rebalance_condition\<close> returns true exactly when the
  price is at most the double \<open>lowerPrice * (1 + threshold)\<close> or at least the double
  \<open>upperPrice * (1 - threshold)\<close>, where the sum, the difference and the two products are each
  rounded to binary64; it returns false otherwise. It fetches the price once and changes
  nothing else.
\<close>

theorem check_rebalance_condition_rounded:
  assumes "fetch_ticker env (world b) = (Inr ticker, w')"
    and "ticker ''last'' = Some (Some price)"
    and "current_position b = Some position"
    and "position ''lower_price'' = Some lowerPrice"
    and "position ''upper_price'' = Some upperPrice"
  shows "check_rebalance_condition env (b, tr) =
           (Inr (fle (Fin price)
                   (fmul (Fin lowerPrice)
                      (fadd (Fin 1) (Fin (strategy_rebalance_threshold (config b)))))
                 \<or> fle (fmul (Fin upperPrice)
                          (fsub (Fin 1) (Fin (strategy_rebalance_threshold (config b)))))
                      (Fin price)),
            b\<lparr>world := w'\<rparr>, tr @ [Call_fetch_ticker])"
proof -
  have "get_sui_price env (b, tr) = (Inr price, b\<lparr>world := w'\<rparr>, tr @ [Call_fetch_ticker])"
    using assms(1,2) by (rule get_sui_price_returns)
  then show ?thesis
    using assms(3-5)
    by (simp add: check_rebalance_condition_def bnd_def get_self_def subscript_def ret_def)
qed

theorem check_rebalance_condition_rounded_witness:
  "check_rebalance_condition sample_env (sample_bot [104 / 100], []) =
     (Inr True, sample_bot [], [Call_fetch_ticker])
   \<and> check_rebalance_condition sample_env (sample_bot [1], []) =
     (Inr False, sample_bot [], [Call_fetch_ticker])"
proof -
  have c: "current_position (sample_bot [p]) = Some sample_position" for p
    by (simp add: sample_bot_def)
  have lo: "sample_position ''lower_price'' = Some (95 / 100)"
    and up: "sample_position ''upper_price'' = Some (105 / 100)"
    by (simp_all add: sample_position_def)
  have t: "strategy_rebalance_threshold (config (sample_bot ps)) = 1 / 100" for ps
    by (simp add: sample_bot_def sample_config_def)
  from check_rebalance_condition_rounded [OF sample_fetch sample_last c lo up, of "104 / 100" "[]"]
    check_rebalance_condition_rounded [OF sample_fetch sample_last c lo up, of 1 "[]"]
  show ?thesis
    by (simp add: t float64_eval sample_bot_world)
qed

text \<open>
  C1 as stated, with the thresholds taken exactly, fails at a price that is the rounded
  lower threshold. For the doubles nearest to the lower price \<open>0.628\<close>, the upper price \<open>0.7\<close>, the threshold
  \<open>0.022\<close> and the price \<open>0.641816\<close>, the method returns true: the rounded lower threshold
  is the price itself. The exact product is below the price, and the price is below the
  exact upper threshold.
\<close>

theorem check_rebalance_condition_exact_counterexample:
  "check_rebalance_condition sample_env (edge_bot [5780964596880845 / 9007199254740992], []) =
     (Inr True, edge_bot [], [Call_fetch_ticker])
   \<and> \<not> (5780964596880845 / 9007199254740992
          \<le> 5656521131977343 / 9007199254740992
             * (1 + 3170534137668829 / 144115188075855872 :: real)
        \<or> (5780964596880845 / 9007199254740992 :: real)
          \<ge> 3152519739159347 / 4503599627370496
             * (1 - 3170534137668829 / 144115188075855872))"
proof -
  have lower: "fmul (Fin (5656521131977343 / 9007199254740992))
      (fadd (Fin 1) (Fin (3170534137668829 / 144115188075855872))) =
      Fin (5780964596880845 / 9007199254740992)"
    by (simp add: float64_eval)
  have run: "check_rebalance_condition sample_env
      (edge_bot [5780964596880845 / 9007199254740992], []) =
      (Inr True, edge_bot [], [Call_fetch_ticker])"
    by (simp add: check_rebalance_condition_def get_sui_price_def bnd_def api_call_def
        subscript_def ret_def get_self_def sample_env_def sample_fetch_ticker_def edge_bot_def
        lower del: fmul.simps fadd.simps)
  have exact: "\<not> (5780964596880845 / 9007199254740992
          \<le> 5656521131977343 / 9007199254740992
             * (1 + 3170534137668829 / 144115188075855872 :: real)
        \<or> (5780964596880845 / 9007199254740992 :: real)
          \<ge> 3152519739159347 / 4503599627370496
             * (1 - 3170534137668829 / 144115188075855872))"
    by simp
  from run exact show ?thesis
    by (rule conjI)
qed

text \<open>
  C2, as the code has it. When \<^verbatim>\<open>remove_liquidity\<close> (step 1) or \<^verbatim>\<open>close_hedge_position\<close>
  (step 3) raises, \<^verbatim>\<open>rebalance_position\<close> stops there and lets the exception escape: the steps
  after it do not run, \<^verbatim>\<open>initialize_position\<close> is not called, and the object is as the failing
  step left it; \<^verbatim>\<open>rebalance_position\<close> itself writes no attribute and sends no alert. When
  the rebalance was started by the main loop and the exception derives from \<^verbatim>\<open>Exception\<close>,
  the loop's handler calls \<^verbatim>\<open>send_alert\<close> with the system-error prefix and the exception's
  text; if that call returns, the loop sleeps 60 seconds and goes on with its next pass; if
  that call raises, its exception escapes the pass without the sleep and ends the loop. An
  exception that does not derive from \<^verbatim>\<open>Exception\<close> escapes the loop with no alert.
\<close>

theorem rebalance_failure_aborts:
  assumes drift: "check_rebalance_condition env s = (Inr True, b, tr)"
    and failure:
      "remove_liquidity env b = (Inl e, b') \<and> evs = [Call_remove_liquidity]
       \<or> (\<exists>b1 ticker w2 price.
             remove_liquidity env b = (Inr (), b1)
           \<and> fetch_ticker env (world b1) = (Inr ticker, w2)
           \<and> ticker ''last'' = Some (Some price)
           \<and> close_hedge_position env (b1\<lparr>world := w2\<rparr>) = (Inl e, b')
           \<and> evs = [Call_remove_liquidity, Call_fetch_ticker, Call_close_hedge_position])"
    and alert: "send_alert env (system_error @ str_exn e) b' = (r, b'')"
  shows "rebalance_position env (b, tr) = (Inl e, b', tr @ evs)
       \<and> Call_initialize_position \<notin> set evs
       \<and> main_loop_body env s =
           (case e of
              Base_exception c m \<Rightarrow> (Inl e, b', tr @ evs)
            | Exception c m \<Rightarrow>
                (case r of
                   Inl e' \<Rightarrow> (Inl e', b'', tr @ evs @ [Call_send_alert (system_error @ m)])
                 | Inr u \<Rightarrow>
                     (Inr (), b'',
                      tr @ evs @ [Call_send_alert (system_error @ m), Call_sleep 60])))
       \<and> while_true (Suc n) env s =
           (case e of
              Base_exception c m \<Rightarrow> (Inl e, b', tr @ evs)
            | Exception c m \<Rightarrow>
                (case r of
                   Inl e' \<Rightarrow> (Inl e', b'', tr @ evs @ [Call_send_alert (system_error @ m)])
                 | Inr u \<Rightarrow>
                     while_true n env
                       (b'', tr @ evs @ [Call_send_alert (system_error @ m), Call_sleep 60])))"
proof -
  have aborted: "rebalance_position env (b, tr) = (Inl e, b', tr @ evs)"
    using failure
    by (auto simp: rebalance_position_def get_sui_price_def bnd_def method_call_def api_call_def
        subscript_def ret_def get_self_def new_range_def)
  have not_recreated: "Call_initialize_position \<notin> set evs"
    using failure by auto
  have pass: "main_loop_body env s =
      (case e of
         Base_exception c m \<Rightarrow> (Inl e, b', tr @ evs)
       | Exception c m \<Rightarrow>
           (case r of
              Inl e' \<Rightarrow> (Inl e', b'', tr @ evs @ [Call_send_alert (system_error @ m)])
            | Inr u \<Rightarrow>
                (Inr (), b'',
                 tr @ evs @ [Call_send_alert (system_error @ m), Call_sleep 60])))"
    using drift aborted alert
    by (cases e; cases r)
      (simp_all add: main_loop_body_def try_except_def bnd_def method_call_def sleep_def)
  have loop: "while_true (Suc n) env s =
      (case e of
         Base_exception c m \<Rightarrow> (Inl e, b', tr @ evs)
       | Exception c m \<Rightarrow>
           (case r of
              Inl e' \<Rightarrow> (Inl e', b'', tr @ evs @ [Call_send_alert (system_error @ m)])
            | Inr u \<Rightarrow>
                while_true n env
                  (b'', tr @ evs @ [Call_send_alert (system_error @ m), Call_sleep 60])))"
    unfolding while_true_Suc pass
    by (cases e; cases r) simp_all
  from aborted not_recreated pass loop show ?thesis
    by blast
qed


theorem rebalance_failure_aborts_witness:
  "(rebalance_position sample_env_remove_fails (sample_bot [], [Call_fetch_ticker]) =
      (Inl (Exception ''LedgerSubmitError'' ''timeout''), sample_bot [],
       [Call_fetch_ticker, Call_remove_liquidity])
    \<and> main_loop_body sample_env_remove_fails (sample_bot [104 / 100], []) =
      (Inr (), sample_bot [],
       [Call_fetch_ticker, Call_remove_liquidity,
        Call_send_alert (system_error @ ''timeout''), Call_sleep 60]))
   \<and> (rebalance_position sample_env_close_fails (sample_bot [1], [Call_fetch_ticker]) =
      (Inl (Exception ''VenueSubmitError'' ''rejected''), sample_bot [],
       [Call_fetch_ticker, Call_remove_liquidity, Call_fetch_ticker, Call_close_hedge_position])
    \<and> main_loop_body sample_env_close_fails (sample_bot [104 / 100, 1], []) =
      (Inr (), sample_bot [],
       [Call_fetch_ticker, Call_remove_liquidity, Call_fetch_ticker, Call_close_hedge_position,
        Call_send_alert (system_error @ ''rejected''), Call_sleep 60]))
   \<and> (main_loop_body sample_env_remove_fails_alert_undefined (sample_bot [104 / 100], []) =
      (Inl (AttributeError ''send_alert''), sample_bot [],
       [Call_fetch_ticker, Call_remove_liquidity, Call_send_alert (system_error @ ''timeout'')])
    \<and> while_true (Suc 0) sample_env_remove_fails_alert_undefined (sample_bot [104 / 100], []) =
      (Inl (AttributeError ''send_alert''), sample_bot [],
       [Call_fetch_ticker, Call_remove_liquidity, Call_send_alert (system_error @ ''timeout'')]))
   \<and> (main_loop_body sample_env_remove_interrupted (sample_bot [104 / 100], []) =
      (Inl (Base_exception ''KeyboardInterrupt'' ''interrupted''), sample_bot [],
       [Call_fetch_ticker, Call_remove_liquidity])
    \<and> while_true (Suc 0) sample_env_remove_interrupted (sample_bot [104 / 100], []) =
      (Inl (Base_exception ''KeyboardInterrupt'' ''interrupted''), sample_bot [],
       [Call_fetch_ticker, Call_remove_liquidity]))"
proof -
  have drift: "check_rebalance_condition env (sample_bot (104 / 100 # ps), []) =
      (Inr True, sample_bot ps, [Call_fetch_ticker])"
    if "fetch_ticker env = sample_fetch_ticker" for env ps
    using that
    by (simp add: check_rebalance_condition_def get_sui_price_def bnd_def api_call_def
        subscript_def ret_def get_self_def sample_fetch_ticker_def sample_bot_def
        sample_position_def sample_config_def float64_eval)
  have ft1: "fetch_ticker sample_env_remove_fails = sample_fetch_ticker"
    and ft2: "fetch_ticker sample_env_close_fails = sample_fetch_ticker"
    and ft3: "fetch_ticker sample_env_remove_fails_alert_undefined = sample_fetch_ticker"
    and ft4: "fetch_ticker sample_env_remove_interrupted = sample_fetch_ticker"
    by (simp_all add: sample_env_remove_fails_def sample_env_close_fails_def sample_env_def
        sample_env_remove_fails_alert_undefined_def sample_env_remove_interrupted_def)
  have step1: "remove_liquidity sample_env_remove_fails (sample_bot []) = (Inl (Exception ''LedgerSubmitError'' ''timeout''), sample_bot []) \<and> [Call_remove_liquidity] = [Call_remove_liquidity]
    \<or> (\<exists>b1 ticker w2 price.
          remove_liquidity sample_env_remove_fails (sample_bot []) = (Inr (), b1)
        \<and> fetch_ticker sample_env_remove_fails (world b1) = (Inr ticker, w2)
        \<and> ticker ''last'' = Some (Some price)
        \<and> close_hedge_position sample_env_remove_fails (b1\<lparr>world := w2\<rparr>) = (Inl (Exception ''LedgerSubmitError'' ''timeout''), sample_bot [])
        \<and> [Call_remove_liquidity] = [Call_remove_liquidity, Call_fetch_ticker, Call_close_hedge_position])"
    by (simp add: sample_env_remove_fails_def)
  have alert1: "send_alert sample_env_remove_fails
      (system_error @ str_exn (Exception ''LedgerSubmitError'' ''timeout'')) (sample_bot []) =
      (Inr (), sample_bot [])"
    by (simp add: sample_env_remove_fails_def sample_env_def)
  have step3: "remove_liquidity sample_env_close_fails (sample_bot [1]) = (Inl (Exception ''VenueSubmitError'' ''rejected''), sample_bot []) \<and> [Call_remove_liquidity, Call_fetch_ticker, Call_close_hedge_position] = [Call_remove_liquidity]
    \<or> (\<exists>b1 ticker w2 price.
          remove_liquidity sample_env_close_fails (sample_bot [1]) = (Inr (), b1)
        \<and> fetch_ticker sample_env_close_fails (world b1) = (Inr ticker, w2)
        \<and> ticker ''last'' = Some (Some price)
        \<and> close_hedge_position sample_env_close_fails (b1\<lparr>world := w2\<rparr>) = (Inl (Exception ''VenueSubmitError'' ''rejected''), sample_bot [])
        \<and> [Call_remove_liquidity, Call_fetch_ticker, Call_close_hedge_position] = [Call_remove_liquidity, Call_fetch_ticker, Call_close_hedge_position])"
    by (simp add: sample_env_close_fails_def sample_env_def sample_fetch_ticker_def
        sample_bot_def)
  have alert3: "send_alert sample_env_close_fails
      (system_error @ str_exn (Exception ''VenueSubmitError'' ''rejected'')) (sample_bot []) =
      (Inr (), sample_bot [])"
    by (simp add: sample_env_close_fails_def sample_env_def)
  have step1u: "remove_liquidity sample_env_remove_fails_alert_undefined (sample_bot []) = (Inl (Exception ''LedgerSubmitError'' ''timeout''), sample_bot []) \<and> [Call_remove_liquidity] = [Call_remove_liquidity]
    \<or> (\<exists>b1 ticker w2 price.
          remove_liquidity sample_env_remove_fails_alert_undefined (sample_bot []) = (Inr (), b1)
        \<and> fetch_ticker sample_env_remove_fails_alert_undefined (world b1) = (Inr ticker, w2)
        \<and> ticker ''last'' = Some (Some price)
        \<and> close_hedge_position sample_env_remove_fails_alert_undefined (b1\<lparr>world := w2\<rparr>) = (Inl (Exception ''LedgerSubmitError'' ''timeout''), sample_bot [])
        \<and> [Call_remove_liquidity] = [Call_remove_liquidity, Call_fetch_ticker, Call_close_hedge_position])"
    by (simp add: sample_env_remove_fails_alert_undefined_def sample_env_remove_fails_def)
  have alert1u: "send_alert sample_env_remove_fails_alert_undefined
      (system_error @ str_exn (Exception ''LedgerSubmitError'' ''timeout'')) (sample_bot []) =
      (Inl (AttributeError ''send_alert''), sample_bot [])"
    by (simp add: sample_env_remove_fails_alert_undefined_def)
  have step1i: "remove_liquidity sample_env_remove_interrupted (sample_bot []) = (Inl (Base_exception ''KeyboardInterrupt'' ''interrupted''), sample_bot []) \<and> [Call_remove_liquidity] = [Call_remove_liquidity]
    \<or> (\<exists>b1 ticker w2 price.
          remove_liquidity sample_env_remove_interrupted (sample_bot []) = (Inr (), b1)
        \<and> fetch_ticker sample_env_remove_interrupted (world b1) = (Inr ticker, w2)
        \<and> ticker ''last'' = Some (Some price)
        \<and> close_hedge_position sample_env_remove_interrupted (b1\<lparr>world := w2\<rparr>) = (Inl (Base_exception ''KeyboardInterrupt'' ''interrupted''), sample_bot [])
        \<and> [Call_remove_liquidity] = [Call_remove_liquidity, Call_fetch_ticker, Call_close_hedge_position])"
    by (simp add: sample_env_remove_interrupted_def)
  have alert1i: "send_alert sample_env_remove_interrupted
      (system_error @ str_exn (Base_exception ''KeyboardInterrupt'' ''interrupted''))
      (sample_bot []) = (Inr (), sample_bot [])"
    by (simp add: sample_env_remove_interrupted_def sample_env_def)
  from rebalance_failure_aborts [OF drift [OF ft1] step1 alert1, of 0]
    rebalance_failure_aborts [OF drift [OF ft2] step3 alert3, of 0]
    rebalance_failure_aborts [OF drift [OF ft3] step1u alert1u, of 0]
    rebalance_failure_aborts [OF drift [OF ft4] step1i alert1i, of 0]
  show ?thesis
    by simp
qed

text \<open>
  C2 as stated fails on the status: the class records no status. After a pass of the main
  loop in which step 1 failed, the object is the one before the pass (only the consumed
  price is gone from the world), its position is still the one the drift check reads, and
  the next pass checks the drift on it and starts the teardown again.
\<close>

theorem rebalance_failure_status_counterexample:
  "main_loop_body sample_env_remove_fails (sample_bot [104 / 100, 104 / 100], []) =
     (Inr (), (sample_bot [104 / 100, 104 / 100])\<lparr>world := [104 / 100]\<rparr>,
      [Call_fetch_ticker, Call_remove_liquidity,
       Call_send_alert (system_error @ ''timeout''), Call_sleep 60])
   \<and> while_true (Suc (Suc 0)) sample_env_remove_fails (sample_bot [104 / 100, 104 / 100], []) =
     (Inr (), (sample_bot [104 / 100, 104 / 100])\<lparr>world := []\<rparr>,
      [Call_fetch_ticker, Call_remove_liquidity,
       Call_send_alert (system_error @ ''timeout''), Call_sleep 60,
       Call_fetch_ticker, Call_remove_liquidity,
       Call_send_alert (system_error @ ''timeout''), Call_sleep 60])"
proof -
  have pass: "main_loop_body sample_env_remove_fails (sample_bot (104 / 100 # ps), tr) =
     (Inr (), sample_bot ps,
      tr @ [Call_fetch_ticker, Call_remove_liquidity,
            Call_send_alert (system_error @ ''timeout''), Call_sleep 60])" for ps tr
    by (simp add: main_loop_body_def try_except_def check_rebalance_condition_def
        rebalance_position_def get_sui_price_def bnd_def api_call_def method_call_def
        subscript_def ret_def get_self_def sleep_def sample_env_remove_fails_def sample_env_def
        sample_fetch_ticker_def sample_bot_def sample_position_def sample_config_def
        float64_eval)
  from pass [of "[104 / 100]" "[]"]
    pass [of "[]" "[Call_fetch_ticker, Call_remove_liquidity,
                    Call_send_alert (system_error @ ''timeout''), Call_sleep 60]"]
  show ?thesis
    by (simp add: bnd_def ret_def sample_bot_world)
qed

text \<open>
  C3. Every execution of \<^verbatim>\<open>rebalance_position\<close> that returns has called, in this order and
  nothing else: \<^verbatim>\<open>remove_liquidity\<close> on the object as it was, the price fetch, then
  \<^verbatim>\<open>close_hedge_position\<close> on the object as the two earlier steps left it, and last
  \<^verbatim>\<open>initialize_position\<close> on the object as the hedge close left it; each of them returned.
\<close>

theorem rebalance_position_order:
  assumes "rebalance_position env (b, tr) = (Inr u, b', tr')"
  shows "\<exists>b1 ticker w2 price b3.
           remove_liquidity env b = (Inr (), b1)
         \<and> fetch_ticker env (world b1) = (Inr ticker, w2)
         \<and> ticker ''last'' = Some (Some price)
         \<and> close_hedge_position env (b1\<lparr>world := w2\<rparr>) = (Inr (), b3)
         \<and> initialize_position env b3 = (Inr u, b')
         \<and> tr' = tr @ [Call_remove_liquidity, Call_fetch_ticker,
                        Call_close_hedge_position, Call_initialize_position]"
  using assms
  by (auto simp: rebalance_position_def get_sui_price_def bnd_def method_call_def api_call_def
      subscript_def ret_def raise_def get_self_def new_range_def
      split: prod.splits sum.splits option.splits)

theorem rebalance_position_order_witness:
  "rebalance_position sample_env (sample_bot [105 / 100, 11 / 10], []) =
     (Inr (),
      \<lparr>config = sample_config,
       current_position = Some [''lower_price'' \<mapsto> 1045 / 1000, ''upper_price'' \<mapsto> 1155 / 1000],
       world = []\<rparr>,
      [Call_remove_liquidity, Call_fetch_ticker, Call_close_hedge_position,
       Call_initialize_position])
   \<and> (\<exists>b1 ticker w2 price b3.
           remove_liquidity sample_env (sample_bot [105 / 100, 11 / 10]) = (Inr (), b1)
         \<and> fetch_ticker sample_env (world b1) = (Inr ticker, w2)
         \<and> ticker ''last'' = Some (Some price)
         \<and> close_hedge_position sample_env (b1\<lparr>world := w2\<rparr>) = (Inr (), b3)
         \<and> initialize_position sample_env b3 =
             (Inr (),
              \<lparr>config = sample_config,
               current_position =
                 Some [''lower_price'' \<mapsto> 1045 / 1000, ''upper_price'' \<mapsto> 1155 / 1000],
               world = []\<rparr>))"
proof -
  have run: "rebalance_position sample_env (sample_bot [105 / 100, 11 / 10], []) =
     (Inr (),
      \<lparr>config = sample_config,
       current_position = Some [''lower_price'' \<mapsto> 1045 / 1000, ''upper_price'' \<mapsto> 1155 / 1000],
       world = []\<rparr>,
      [] @ [Call_remove_liquidity, Call_fetch_ticker, Call_close_hedge_position,
       Call_initialize_position])"
    by (simp add: rebalance_position_def get_sui_price_def bnd_def method_call_def api_call_def
        subscript_def ret_def get_self_def new_range_def sample_env_def sample_bot_def
        sample_fetch_ticker_def sample_initialize_position_def sample_config_def)
  from rebalance_position_order [OF run] run show ?thesis
    by simp
qed




text \<open>
  C5, as the code has it. The computation validates nothing. Whatever the capital and the
  range fraction are, \<^verbatim>\<open>calculate_swap_amounts\<close> returns the two amounts for every price
  other than zero, a negative one included; at price zero the float division raises
  \<^verbatim>\<open>ZeroDivisionError\<close>.
\<close>

theorem computeRange_unvalidated:
  assumes "fetch_ticker env (world b) = (Inr ticker, w')"
    and "ticker ''last'' = Some (Some price)"
  shows "calculate_swap_amounts env (b, tr) =
           (if price = 0 then Inl ZeroDivisionError
            else Inr ((strategy_base_amount (config b) * 0.5) / price,
                      strategy_base_amount (config b) * 0.5),
            b\<lparr>world := w'\<rparr>, tr @ [Call_fetch_ticker])"
proof -
  have "get_sui_price env (b, tr) = (Inr price, b\<lparr>world := w'\<rparr>, tr @ [Call_fetch_ticker])"
    using assms(1,2) by (rule get_sui_price_returns)
  then show ?thesis
    by (simp add: calculate_swap_amounts_def bnd_def get_self_def py_div_def ret_def Let_def raise_def)
qed

theorem computeRange_unvalidated_witness:
  "calculate_swap_amounts sample_env (sample_bot [- 1], []) =
     (Inr (- 500, 500), sample_bot [], [Call_fetch_ticker])
   \<and> calculate_swap_amounts sample_env (sample_bot [0], []) =
     (Inl ZeroDivisionError, sample_bot [], [Call_fetch_ticker])"
  using computeRange_unvalidated [OF sample_fetch sample_last, of "- 1" "[]" "[]"]
    computeRange_unvalidated [OF sample_fetch sample_last, of 0 "[]" "[]"]
  by (simp add: sample_bot_world sample_bot_config) (simp add: sample_config_def)

text \<open>
  C5 as stated fails: at price \<open>-1\<close> the amounts \<open>(-500, 500)\<close> are returned and no error
  is raised, and a range fraction of \<open>2\<close> gives the bounds \<open>(-1, 3)\<close>.
\<close>

theorem computeRange_invalid_input_counterexample:
  "calculate_swap_amounts sample_env (sample_bot [- 1], []) =
     (Inr (- 500, 500), sample_bot [], [Call_fetch_ticker])
   \<and> new_range (sample_config\<lparr>strategy_price_range := 2\<rparr>) 1 = (- 1, 3)"
  by (simp add: calculate_swap_amounts_def get_sui_price_def bnd_def api_call_def subscript_def
      ret_def get_self_def py_div_def sample_fetch sample_bot_world sample_bot_config
      new_range_def)
    (simp add: sample_config_def)

text \<open>
  C6, as the code has it. The transaction that \<^verbatim>\<open>add_liquidity\<close> submits has six arguments;
  the last one, the slippage argument, is the constant \<open>0\<close> whatever the caller passes and
  whatever the configuration holds, and the transaction does not depend on the configured
  slippage tolerance.
\<close>

theorem add_liquidity_slippage_constant:
  "(\<exists>r b'. add_liquidity env sui_amount usdc_amount lower_tick upper_tick (b, tr) =
      (r, b', tr @ [Call_execute
                      (add_liquidity_tx (config b) sui_amount usdc_amount lower_tick upper_tick)]))
   \<and> length (arguments (add_liquidity_tx cfg sui_amount usdc_amount lower_tick upper_tick)) = 6
   \<and> arguments (add_liquidity_tx cfg sui_amount usdc_amount lower_tick upper_tick) ! 5 = Pure 0
   \<and> add_liquidity_tx (cfg\<lparr>slippage_tolerance := t\<rparr>) sui_amount usdc_amount lower_tick upper_tick
       = add_liquidity_tx cfg sui_amount usdc_amount lower_tick upper_tick"
  using add_liquidity_submits [of env sui_amount usdc_amount lower_tick upper_tick b tr]
  by (simp add: add_liquidity_tx_def Let_def)

text \<open>
  C6 as stated fails: with a configured slippage tolerance of \<open>1/100\<close>, and again with
  \<open>1/2\<close>, the slippage argument of the submitted transaction is \<open>0\<close>.
\<close>

theorem add_liquidity_slippage_counterexample:
  "slippage_tolerance sample_config = 1 / 100
   \<and> arguments (add_liquidity_tx sample_config 1 1 0 0) ! 5 = Pure 0
   \<and> slippage_tolerance (sample_config\<lparr>slippage_tolerance := 1 / 2\<rparr>) = 1 / 2
   \<and> arguments (add_liquidity_tx (sample_config\<lparr>slippage_tolerance := 1 / 2\<rparr>) 1 1 0 0) ! 5 = Pure 0"
  by (simp add: add_liquidity_tx_def Let_def sample_config_def)

text \<open>
  C9, as the code has it. When the order placement, or the reading of the order's \<^verbatim>\<open>id\<close>,
  raises an exception deriving from \<^verbatim>\<open>Exception\<close>, \<^verbatim>\<open>execute_hedge\<close> catches it and calls
  \<^verbatim>\<open>send_alert\<close> with the hedge-failure prefix and the exception's text; if that call
  returns, \<^verbatim>\<open>execute_hedge\<close> returns \<^verbatim>\<open>None\<close> and the caller sees no exception; if that call
  raises, its exception reaches the caller. An exception that does not derive from
  \<^verbatim>\<open>Exception\<close> reaches the caller with no alert. A placement that succeeds returns the
  order's identifier and sends no alert, so the \<^verbatim>\<open>None\<close> return tells a handled failure from
  a success.
\<close>

theorem execute_hedge_outcomes:
  assumes "create_market_sell_order env sui_amount (world b) = (placed, w')"
  shows "execute_hedge env sui_amount (b, tr) =
     (case placed of
        Inr order \<Rightarrow>
          (case order ''id'' of
             Some order_id \<Rightarrow>
               (Inr (Some order_id), b\<lparr>world := w'\<rparr>,
                tr @ [Call_create_market_sell_order sui_amount])
           | None \<Rightarrow>
               (case send_alert env (hedge_order_failed @ str_exn (KeyError ''id''))
                       (b\<lparr>world := w'\<rparr>) of
                  (Inr u, b') \<Rightarrow>
                    (Inr None, b',
                     tr @ [Call_create_market_sell_order sui_amount,
                           Call_send_alert (hedge_order_failed @ str_exn (KeyError ''id''))])
                | (Inl e', b') \<Rightarrow>
                    (Inl e', b',
                     tr @ [Call_create_market_sell_order sui_amount,
                           Call_send_alert (hedge_order_failed @ str_exn (KeyError ''id''))])))
      | Inl (Exception c m) \<Rightarrow>
          (case send_alert env (hedge_order_failed @ m) (b\<lparr>world := w'\<rparr>) of
             (Inr u, b') \<Rightarrow>
               (Inr None, b',
                tr @ [Call_create_market_sell_order sui_amount,
                      Call_send_alert (hedge_order_failed @ m)])
           | (Inl e', b') \<Rightarrow>
               (Inl e', b',
                tr @ [Call_create_market_sell_order sui_amount,
                      Call_send_alert (hedge_order_failed @ m)]))
      | Inl (Base_exception c m) \<Rightarrow>
          (Inl (Base_exception c m), b\<lparr>world := w'\<rparr>,
           tr @ [Call_create_market_sell_order sui_amount]))"
  using assms
  by (auto simp: execute_hedge_def try_except_def bnd_def api_call_def method_call_def ret_def
      raise_def subscript_def KeyError_def
      split: sum.splits exn.splits option.splits prod.splits)

theorem execute_hedge_outcomes_witness:
  "execute_hedge sample_env 500 (sample_bot [], []) =
     (Inr (Some ''42''), sample_bot [], [Call_create_market_sell_order 500])
   \<and> execute_hedge sample_env_order_rejected 500 (sample_bot [], []) =
     (Inr None, sample_bot [],
      [Call_create_market_sell_order 500,
       Call_send_alert (hedge_order_failed @ ''margin is insufficient'')])
   \<and> execute_hedge sample_env_order_rejected_alert_undefined 500 (sample_bot [], []) =
     (Inl (AttributeError ''send_alert''), sample_bot [],
      [Call_create_market_sell_order 500,
       Call_send_alert (hedge_order_failed @ ''margin is insufficient'')])
   \<and> execute_hedge sample_env_order_interrupted 500 (sample_bot [], []) =
     (Inl (Base_exception ''KeyboardInterrupt'' ''interrupted''), sample_bot [],
      [Call_create_market_sell_order 500])"
proof -
  have placed: "create_market_sell_order sample_env 500 (world (sample_bot [])) =
      (Inr [''id'' \<mapsto> ''42''], [])"
    by (simp add: sample_env_def sample_bot_def)
  have rejected: "create_market_sell_order sample_env_order_rejected 500 (world (sample_bot [])) =
      (Inl (Exception ''InsufficientFunds'' ''margin is insufficient''), [])"
    by (simp add: sample_env_order_rejected_def sample_bot_def)
  have rejected': "create_market_sell_order sample_env_order_rejected_alert_undefined 500
      (world (sample_bot [])) =
      (Inl (Exception ''InsufficientFunds'' ''margin is insufficient''), [])"
    by (simp add: sample_env_order_rejected_alert_undefined_def sample_env_order_rejected_def
        sample_bot_def)
  have interrupted: "create_market_sell_order sample_env_order_interrupted 500
      (world (sample_bot [])) =
      (Inl (Base_exception ''KeyboardInterrupt'' ''interrupted''), [])"
    by (simp add: sample_env_order_interrupted_def sample_bot_def)
  from execute_hedge_outcomes [OF placed, of "[]"]
    execute_hedge_outcomes [OF rejected, of "[]"]
    execute_hedge_outcomes [OF rejected', of "[]"]
    execute_hedge_outcomes [OF interrupted, of "[]"]
  show ?thesis
    by (simp add: sample_bot_world sample_env_order_rejected_def
        sample_env_order_rejected_alert_undefined_def sample_env_def)
qed

text \<open>
  C9 as stated fails: not every exception is swallowed. An interrupt raised by the order
  placement reaches the caller with no alert sent, and when the alert call itself raises
  (as it does for a method that the class does not define) the caller receives that
  exception.
\<close>

theorem execute_hedge_propagates_counterexample:
  "execute_hedge sample_env_order_interrupted 500 (sample_bot [], []) =
     (Inl (Base_exception ''KeyboardInterrupt'' ''interrupted''), sample_bot [],
      [Call_create_market_sell_order 500])
   \<and> execute_hedge sample_env_order_rejected_alert_undefined 500 (sample_bot [], []) =
     (Inl (AttributeError ''send_alert''), sample_bot [],
      [Call_create_market_sell_order 500,
       Call_send_alert (hedge_order_failed @ ''margin is insufficient'')])"
  by (simp add: execute_hedge_def try_except_def bnd_def api_call_def method_call_def ret_def
      sample_env_order_interrupted_def sample_env_order_rejected_alert_undefined_def
      sample_env_order_rejected_def sample_env_def sample_bot_def)



end
